theory Spec2Isabelle
  imports Complex_Main "HOL-Library.Multiset"
begin

section \<open>Monte Carlo dropout uncertainty (chapter10/fashionMNIST_dropout_for_detection.ipynb)\<close>

text \<open>
  The notebook computes with numpy float64 arrays. Here a float64 is a \<^typ>\<open>real\<close>: every
  statement below is about exact arithmetic, and rounding is not modelled. The one
  non-finite value the reduction can produce from finite inputs is numpy's nan, when it
  divides by a zero \<open>shape[0]\<close>; a score is therefore a \<^typ>\<open>real option\<close>, with
  \<open>None\<close> for nan.

  A numpy array of shape \<open>(C)\<close> is a list of reals, one of shape \<open>(L, C)\<close> a list of
  \<open>L\<close> rows, one of shape \<open>(L, N, C)\<close> a list of \<open>L\<close> matrices. numpy arrays are
  rectangular by construction; the predicates \<open>has_shape2\<close> and \<open>has_shape3\<close> say so of a
  list.
\<close>

type_synonym npfloat = "real option"
type_synonym vec = "real list"
type_synonym matrix = "real list list"
type_synonym tensor = "real list list list"

definition has_shape2 :: "nat \<Rightarrow> nat \<Rightarrow> matrix \<Rightarrow> bool" where
  "has_shape2 L C m = (length m = L \<and> list_all (\<lambda>row. length row = C) m)"

definition has_shape3 :: "nat \<Rightarrow> nat \<Rightarrow> nat \<Rightarrow> tensor \<Rightarrow> bool" where
  "has_shape3 L N C t = (length t = L \<and> list_all (has_shape2 N C) t)"

subsection \<open>The numpy operations that \<open>uncertainty\<close> calls\<close>

text \<open>\<^verbatim>\<open>np.square\<close> on a vector and on a matrix: elementwise \<open>x * x\<close>.\<close>

definition np_square :: "vec \<Rightarrow> vec" where
  "np_square v = map (\<lambda>x. x * x) v"

definition np_square2 :: "matrix \<Rightarrow> matrix" where
  "np_square2 m = map np_square m"

text \<open>\<^verbatim>\<open>np.sum\<close> with no axis: the sum of all elements.\<close>

definition np_sum :: "vec \<Rightarrow> real" where
  "np_sum v = sum_list v"

definition np_sum2 :: "matrix \<Rightarrow> real" where
  "np_sum2 m = sum_list (map sum_list m)"

text \<open>
  \<^verbatim>\<open>np.mean(m, axis=0)\<close> of an \<open>(L, C)\<close> array: the vector of the \<open>C\<close> column means.
  The column count is read off the first row; \<open>uncertainty\<close> below calls it on arrays
  with at least one row only.
\<close>

definition column :: "nat \<Rightarrow> matrix \<Rightarrow> vec" where
  "column j m = map (\<lambda>row. row ! j) m"

definition np_mean_axis0 :: "matrix \<Rightarrow> vec" where
  "np_mean_axis0 m =
     (case m of
        [] \<Rightarrow> []
      | r # _ \<Rightarrow> map (\<lambda>j. sum_list (column j m) / real (length m)) [0..<length r])"

subsection \<open>\<open>uncertainty\<close>\<close>

text \<open>
  \<^verbatim>\<open>
  def uncertainty(predictions):
      return(np.sum(np.square(predictions))/predictions.shape[0]
             - np.sum(np.square(np.mean(predictions, axis=0))))
  \<close>
  \<open>predictions\<close> has shape \<open>(L, C)\<close>. With \<open>L = 0\<close> numpy evaluates \<open>0.0 / 0\<close> to nan
  (with a warning, no exception), and the difference is nan.
\<close>

definition uncertainty :: "matrix \<Rightarrow> npfloat" where
  "uncertainty predictions =
     (if length predictions = 0 then None
      else Some (np_sum2 (np_square2 predictions) / real (length predictions)
                 - np_sum (np_square (np_mean_axis0 predictions))))"

subsection \<open>The scoring loop\<close>

text \<open>
  \<^verbatim>\<open>
  uncertainty_results = np.zeros((num_images))
  uncertainty_results_adv = np.zeros((num_images))

  for i in range(num_images):
      uncertainty_results[i] = uncertainty(predictions_matrix[:,i])
      uncertainty_results_adv[i] = uncertainty(predictions_matrix_adv[:,i])
  \<close>
  \<open>predictions_matrix[:,i]\<close> is the \<open>(L, C)\<close> slice of image \<open>i\<close>: row \<open>i\<close> of every pass.
  Both tensors have shape \<open>(L, num_images, num_classes)\<close> when the loop runs, so the
  index is in range.
\<close>

definition image_slice :: "tensor \<Rightarrow> nat \<Rightarrow> matrix" where
  "image_slice t i = map (\<lambda>pass. pass ! i) t"

definition score_step ::
  "tensor \<Rightarrow> tensor \<Rightarrow> nat \<Rightarrow> npfloat list \<times> npfloat list \<Rightarrow> npfloat list \<times> npfloat list" where
  "score_step predictions_matrix predictions_matrix_adv i acc =
     ((fst acc)[i := uncertainty (image_slice predictions_matrix i)],
      (snd acc)[i := uncertainty (image_slice predictions_matrix_adv i)])"

definition uncertainty_results :: "nat \<Rightarrow> tensor \<Rightarrow> tensor \<Rightarrow> npfloat list \<times> npfloat list" where
  "uncertainty_results num_images predictions_matrix predictions_matrix_adv =
     fold (score_step predictions_matrix predictions_matrix_adv) [0..<num_images]
       (replicate num_images (Some 0), replicate num_images (Some 0))"

subsection \<open>The stochastic predictor\<close>

text \<open>
  \<^verbatim>\<open>model.predict\<close> is Keras code. The model is built with
  \<^verbatim>\<open>Dropout(0.2)(x, training=True)\<close>, so every call draws its dropout mask from
  TensorFlow's random generator. The predictor is a parameter here: a function of the
  generator's state and the batch, giving the output matrix (one row of class
  probabilities per image) and the generator's next state. The \<open>world\<close> threads that
  state through the notebook and counts the calls of \<^verbatim>\<open>model.predict\<close>.
\<close>

record 'g world =
  rng :: 'g
  predict_calls :: nat

type_synonym ('g, 'i) predictor = "'g \<Rightarrow> 'i list \<Rightarrow> matrix \<times> 'g"

definition model_predict :: "('g, 'i) predictor \<Rightarrow> 'i list \<Rightarrow> 'g world \<Rightarrow> matrix \<times> 'g world" where
  "model_predict predict x w =
     (case predict (rng w) x of
        (out, g') \<Rightarrow> (out, \<lparr>rng = g', predict_calls = Suc (predict_calls w)\<rparr>))"

subsection \<open>The sampling loop\<close>

text \<open>
  \<^verbatim>\<open>
  predictions_matrix = np.zeros((L, num_images, num_classes))
  predictions_matrix_adv = np.zeros((L, num_images, num_classes))

  for i in range(L):
      predictions = model.predict(x_images)
      predictions_adv = model.predict(x_images_adv)
      predictions_matrix[i] = predictions
      predictions_matrix_adv[i] = predictions_adv
  \<close>
  The assignment \<open>predictions_matrix[i] = predictions\<close> stores a \<open>(k, c)\<close> array into a
  \<open>(num_images, num_classes)\<close> slot. numpy broadcasts: it accepts \<open>k = num_images\<close> or
  \<open>k = 1\<close>, and \<open>c = num_classes\<close> or \<open>c = 1\<close>, repeating the single row or column,
  and raises ValueError otherwise. (A list with no rows carries no column count; it is
  accepted into a slot with no rows.) The notebook checks nothing else: it has no test
  on \<open>L\<close> or on the size of the batch. When the assignment raises, both calls of
  \<open>model.predict\<close> of that pass have been made: the error comes with the world as it
  is then.
\<close>

datatype error = ValueError

definition assign_pass :: "nat \<Rightarrow> nat \<Rightarrow> matrix \<Rightarrow> error + matrix" where
  "assign_pass num_images num_classes v =
     (if (length v = num_images \<or> length v = 1)
         \<and> list_all (\<lambda>r. length r = num_classes \<or> length r = 1) v
      then Inr (map (\<lambda>r. if length r = num_classes then r else replicate num_classes (hd r))
                  (if length v = num_images then v else replicate num_images (hd v)))
      else Inl ValueError)"

fun sample_loop ::
  "('g, 'i) predictor \<Rightarrow> nat \<Rightarrow> nat \<Rightarrow> 'i list \<Rightarrow> 'i list \<Rightarrow> nat list
     \<Rightarrow> tensor \<times> tensor \<times> 'g world
     \<Rightarrow> error \<times> 'g world + tensor \<times> tensor \<times> 'g world" where
  "sample_loop predict num_images num_classes x_images x_images_adv [] s = Inr s"
| "sample_loop predict num_images num_classes x_images x_images_adv (i # rest)
     (predictions_matrix, predictions_matrix_adv, w) =
     (case model_predict predict x_images w of (predictions, w1) \<Rightarrow>
      case model_predict predict x_images_adv w1 of (predictions_adv, w2) \<Rightarrow>
      case assign_pass num_images num_classes predictions of
        Inl e \<Rightarrow> Inl (e, w2)
      | Inr p \<Rightarrow>
          (case assign_pass num_images num_classes predictions_adv of
             Inl e \<Rightarrow> Inl (e, w2)
           | Inr pa \<Rightarrow>
               sample_loop predict num_images num_classes x_images x_images_adv rest
                 (predictions_matrix[i := p], predictions_matrix_adv[i := pa], w2)))"

definition predictions_matrices ::
  "('g, 'i) predictor \<Rightarrow> nat \<Rightarrow> nat \<Rightarrow> nat \<Rightarrow> 'i list \<Rightarrow> 'i list \<Rightarrow> 'g world
     \<Rightarrow> error \<times> 'g world + tensor \<times> tensor \<times> 'g world" where
  "predictions_matrices predict L num_images num_classes x_images x_images_adv w =
     sample_loop predict num_images num_classes x_images x_images_adv [0..<L]
       (replicate L (replicate num_images (replicate num_classes 0)),
        replicate L (replicate num_images (replicate num_classes 0)), w)"

subsection \<open>The estimator: sampling, then scoring\<close>

text \<open>
  The two cells in sequence, with the notebook's constants \<open>L\<close> and \<open>num_classes\<close> as
  parameters.
\<close>

text \<open>The world at the end of a run, whether it raised or returned.\<close>

definition final_world :: "error \<times> 'g world + 'a \<times> 'g world \<Rightarrow> 'g world" where
  "final_world r = (case r of Inl (e, w) \<Rightarrow> w | Inr (a, w) \<Rightarrow> w)"

definition estimate ::
  "('g, 'i) predictor \<Rightarrow> nat \<Rightarrow> nat \<Rightarrow> 'i list \<Rightarrow> 'i list \<Rightarrow> nat \<Rightarrow> 'g world
     \<Rightarrow> error \<times> 'g world + (npfloat list \<times> npfloat list) \<times> 'g world" where
  "estimate predict L num_classes x_images x_images_adv num_images w =
     (case predictions_matrices predict L num_images num_classes x_images x_images_adv w of
        Inl e \<Rightarrow> Inl e
      | Inr (predictions_matrix, predictions_matrix_adv, w') \<Rightarrow>
          Inr (uncertainty_results num_images predictions_matrix predictions_matrix_adv, w'))"

subsection \<open>The two batches\<close>

text \<open>
  \<^verbatim>\<open>
  num_images = 1000
  x_images = test_images[0:num_images, :]
  (x_images_adv, _, _) = generate_adversarial_data(original_images = x_images,
                                                   predictions = model.predict(x_images),
                                                   attack_fn = attack_fn)
  num_images = x_images_adv.shape[0]
  x_images = test_images[:num_images]
  \<close>
  \<open>generate_adversarial_data\<close> (strengtheningdnns.adversarial_utils, with foolbox behind
  it) is not part of the notebook; it is a parameter, the function from the clean batch
  and the model's predictions for it to the adversarial batch.
\<close>

type_synonym 'i generator = "'i list \<Rightarrow> matrix \<Rightarrow> 'i list"

definition adversarial_batches ::
  "'i generator \<Rightarrow> ('g, 'i) predictor \<Rightarrow> 'i list \<Rightarrow> nat \<Rightarrow> 'g world
     \<Rightarrow> 'i list \<times> 'i list \<times> nat \<times> 'g world" where
  "adversarial_batches generate_adversarial_data predict test_images num_images w =
     (case model_predict predict (take num_images test_images) w of
        (predictions, w1) \<Rightarrow>
          (let x_images_adv = generate_adversarial_data (take num_images test_images) predictions;
               num_images' = length x_images_adv
           in (take num_images' test_images, x_images_adv, num_images', w1)))"

definition run_experiment ::
  "'i generator \<Rightarrow> ('g, 'i) predictor \<Rightarrow> 'i list \<Rightarrow> nat \<Rightarrow> nat \<Rightarrow> nat \<Rightarrow> 'g world
     \<Rightarrow> error \<times> 'g world + (npfloat list \<times> npfloat list) \<times> 'g world" where
  "run_experiment generate_adversarial_data predict test_images num_images L num_classes w =
     (case adversarial_batches generate_adversarial_data predict test_images num_images w of
        (x_images, x_images_adv, num_images', w1) \<Rightarrow>
          estimate predict L num_classes x_images x_images_adv num_images' w1)"

text \<open>The notebook as it stands: 1000 requested images, \<open>L = 100\<close>, 10 classes.\<close>

definition notebook ::
  "'i generator \<Rightarrow> ('g, 'i) predictor \<Rightarrow> 'i list \<Rightarrow> 'g world
     \<Rightarrow> error \<times> 'g world + (npfloat list \<times> npfloat list) \<times> 'g world" where
  "notebook generate_adversarial_data predict test_images w =
     run_experiment generate_adversarial_data predict test_images 1000 100 10 w"

section \<open>The specification's vocabulary\<close>

text \<open>
  The notions the specification states its properties in. A prediction vector is a
  probability distribution over the classes: non-negative components that sum to 1.
\<close>

definition is_prob_vector :: "vec \<Rightarrow> bool" where
  "is_prob_vector p = (list_all (\<lambda>x. 0 \<le> x) p \<and> sum_list p = 1)"


text \<open>The mean and the population variance of a sample.\<close>

definition mean :: "real list \<Rightarrow> real" where
  "mean xs = sum_list xs / real (length xs)"

definition variance :: "real list \<Rightarrow> real" where
  "variance xs = (\<Sum>x\<leftarrow>xs. (x - mean xs)\<^sup>2) / real (length xs)"






subsection \<open>Contracts of the external collaborators\<close>

text \<open>
  The contract of the stochastic predictor (specification, section 4.1): for a batch of
  \<open>N\<close> images it returns an \<open>N \<times> C\<close> matrix, whatever the state of the random
  generator.
\<close>

definition returns_shape :: "nat \<Rightarrow> ('g, 'i) predictor \<Rightarrow> bool" where
  "returns_shape C predict = (\<forall>g x. has_shape2 (length x) C (fst (predict g x)))"

text \<open>
  Modelled from the spec: \<open>generate_adversarial_data\<close> is not in the notebook. Section 6
  of the specification gives its contract: it returns a batch "with a smaller-or-equal
  count than requested", the requested count being the size of the clean batch it is
  given.
\<close>

definition at_most_requested :: "'i generator \<Rightarrow> bool" where
  "at_most_requested generate = (\<forall>x p. length (generate x p) \<le> length x)"

subsection \<open>Rank order\<close>

text \<open>
  Two prediction vectors rank the classes in the same order when they compare every
  pair of classes the same way; two sets of passes have the same per-pass rank order
  when their vectors do, pass by pass.
\<close>

definition same_order :: "vec \<Rightarrow> vec \<Rightarrow> bool" where
  "same_order p q =
     (length p = length q
      \<and> list_all (\<lambda>j. list_all (\<lambda>k. (p ! j < p ! k) = (q ! j < q ! k)) [0..<length p])
           [0..<length p])"

definition same_rank_order :: "matrix \<Rightarrow> matrix \<Rightarrow> bool" where
  "same_rank_order ps qs = list_all2 same_order ps qs"

section \<open>A concrete predictor and generator\<close>

text \<open>
  For the worked examples: a predictor whose output depends on the state of its
  generator (the class it favours for image \<open>i\<close> flips with the parity of \<open>g + i\<close>,
  and every call advances \<open>g\<close>), and a generator that returns fewer images than it
  was given (the even ones).
\<close>

definition flip_predict :: "(nat, nat) predictor" where
  "flip_predict g x = (map (\<lambda>i. if even (g + i) then [1, 0] else [0, 1]) x, Suc g)"

definition keep_even :: "nat generator" where
  "keep_even x p = filter even x"

section \<open>Properties of the reduction\<close>

lemma np_mean_axis0_Cons:
  "np_mean_axis0 (p # ps) =
     map (\<lambda>j. sum_list (column j (p # ps)) / real (Suc (length ps))) [0..<length p]"
  by (simp add: np_mean_axis0_def)

subsection \<open>Variance\<close>

lemma sum_list_sq_dev:
  fixes a :: real
  shows "(\<Sum>x\<leftarrow>xs. (x - a)\<^sup>2) = (\<Sum>x\<leftarrow>xs. x * x) - 2 * a * sum_list xs + real (length xs) * a\<^sup>2"
  by (induction xs) (simp_all add: power2_eq_square algebra_simps)

lemma variance_alt:
  assumes "xs \<noteq> []"
  shows "variance xs = (\<Sum>x\<leftarrow>xs. x * x) / real (length xs) - (mean xs)\<^sup>2"
proof -
  define n where "n = real (length xs)"
  have n: "n > 0" using assms by (simp add: n_def)
  have s: "sum_list xs = n * mean xs" using n by (simp add: mean_def n_def)
  have "variance xs = ((\<Sum>x\<leftarrow>xs. x * x) - 2 * mean xs * (n * mean xs) + n * (mean xs)\<^sup>2) / n"
    unfolding variance_def sum_list_sq_dev s n_def ..
  also have "\<dots> = (\<Sum>x\<leftarrow>xs. x * x) / n - (mean xs)\<^sup>2"
    using n by (simp add: field_simps power2_eq_square)
  finally show ?thesis by (simp add: n_def)
qed



lemma sum_list_divide:
  fixes c :: real
  shows "(\<Sum>x\<leftarrow>xs. f x / c) = (\<Sum>x\<leftarrow>xs. f x) / c"
  by (induction xs) (simp_all add: add_divide_distrib)

lemma sum_list_nth_upt: "sum_list (map f p) = (\<Sum>j\<leftarrow>[0..<length p]. f (p ! j))"
proof -
  have "map f p = map (\<lambda>j. f (p ! j)) [0..<length p]"
    by (rule nth_equalityI) simp_all
  then show ?thesis by simp
qed

lemma sum_list_rows_columns:
  fixes f :: "real \<Rightarrow> real"
  assumes "list_all (\<lambda>row. length row = C) ps"
  shows "(\<Sum>p\<leftarrow>ps. sum_list (map f p)) = (\<Sum>j\<leftarrow>[0..<C]. \<Sum>x\<leftarrow>column j ps. f x)"
  using assms
proof (induction ps)
  case Nil
  then show ?case by (simp add: column_def)
next
  case (Cons p ps)
  then have len: "length p = C" and rest: "list_all (\<lambda>row. length row = C) ps" by simp_all
  have "(\<Sum>q\<leftarrow>p # ps. sum_list (map f q)) = sum_list (map f p) + (\<Sum>j\<leftarrow>[0..<C]. \<Sum>x\<leftarrow>column j ps. f x)"
    using Cons.IH [OF rest] by simp
  also have "sum_list (map f p) = (\<Sum>j\<leftarrow>[0..<C]. f (p ! j))"
    using sum_list_nth_upt [of f p] len by simp
  also have "(\<Sum>j\<leftarrow>[0..<C]. f (p ! j)) + (\<Sum>j\<leftarrow>[0..<C]. \<Sum>x\<leftarrow>column j ps. f x)
      = (\<Sum>j\<leftarrow>[0..<C]. \<Sum>x\<leftarrow>column j (p # ps). f x)"
    unfolding column_def list.map sum_list.Cons map_map comp_def
    by (rule sum_list_addf [symmetric])
  finally show ?case .
qed

lemma energy_by_columns:
  assumes "list_all (\<lambda>row. length row = C) ps"
  shows "np_sum2 (np_square2 ps) = (\<Sum>j\<leftarrow>[0..<C]. \<Sum>x\<leftarrow>column j ps. x * x)"
  using sum_list_rows_columns [OF assms, of "\<lambda>x. x * x"]
  by (simp add: np_sum2_def np_square2_def np_square_def comp_def)

lemma mean_energy_by_columns:
  assumes "list_all (\<lambda>row. length row = C) ps" and "ps \<noteq> []"
  shows "np_sum (np_square (np_mean_axis0 ps)) = (\<Sum>j\<leftarrow>[0..<C]. (mean (column j ps))\<^sup>2)"
proof -
  obtain p qs where ps: "ps = p # qs" using assms(2) by (cases ps) auto
  with assms(1) have len: "length p = C" by simp
  have lc: "length (column j ps) = length ps" for j by (simp add: column_def)
  show ?thesis
    unfolding ps np_mean_axis0_Cons np_sum_def np_square_def len
    by (simp add: comp_def mean_def column_def power2_eq_square)
qed

lemma uncertainty_sum_variance:
  assumes "list_all (\<lambda>row. length row = C) ps" and "ps \<noteq> []"
  shows "uncertainty ps = Some (\<Sum>j\<leftarrow>[0..<C]. variance (column j ps))"
proof -
  have ne: "column j ps \<noteq> []" for j using assms(2) by (simp add: column_def)
  have lc: "length (column j ps) = length ps" for j by (simp add: column_def)
  have "(\<Sum>j\<leftarrow>[0..<C]. variance (column j ps))
      = (\<Sum>j\<leftarrow>[0..<C]. (\<Sum>x\<leftarrow>column j ps. x * x) / real (length ps) - (mean (column j ps))\<^sup>2)"
    by (simp add: variance_alt [OF ne] lc)
  also have "\<dots> = (\<Sum>j\<leftarrow>[0..<C]. \<Sum>x\<leftarrow>column j ps. x * x) / real (length ps)
                   - (\<Sum>j\<leftarrow>[0..<C]. (mean (column j ps))\<^sup>2)"
    by (simp add: sum_list_subtractf sum_list_divide)
  also have "\<dots> = np_sum2 (np_square2 ps) / real (length ps) - np_sum (np_square (np_mean_axis0 ps))"
    by (simp add: energy_by_columns [OF assms(1)] mean_energy_by_columns [OF assms])
  finally show ?thesis using assms(2) by (simp add: uncertainty_def)
qed

subsection \<open>Identical passes\<close>

lemma column_replicate: "column j (replicate L v) = replicate L (v ! j)"
  by (simp add: column_def)

lemma variance_replicate: "variance (replicate L c) = 0"
proof (cases "L = 0")
  case True
  then show ?thesis by (simp add: variance_def)
next
  case False
  then have "mean (replicate L c) = c"
    by (simp add: mean_def sum_list_replicate)
  then show ?thesis
    by (simp add: variance_def sum_list_replicate)
qed

lemma uncertainty_replicate:
  assumes "0 < L"
  shows "uncertainty (replicate L v) = Some 0"
proof -
  have "list_all (\<lambda>row. length row = length v) (replicate L v)"
    by (simp add: list_all_iff)
  moreover have "replicate L v \<noteq> []" using assms by simp
  ultimately show ?thesis
    by (simp add: uncertainty_sum_variance column_replicate variance_replicate)
qed

subsection \<open>The order of the passes\<close>





subsection \<open>The scoring loop as a map\<close>

lemma list_update_prefix_drop:
  assumes "k < length r" and "length xs = k"
  shows "(xs @ drop k r)[k := v] = (xs @ [v]) @ drop (Suc k) r"
proof -
  have "drop k r = r ! k # drop (Suc k) r"
    using assms(1) by (simp add: Cons_nth_drop_Suc)
  then show ?thesis using assms(2) by (simp add: list_update_append)
qed

lemma fold_score_step:
  assumes "k \<le> length r" and "k \<le> length ra"
  shows "fold (score_step pm pma) [0..<k] (r, ra) =
           (map (\<lambda>i. uncertainty (image_slice pm i)) [0..<k] @ drop k r,
            map (\<lambda>i. uncertainty (image_slice pma i)) [0..<k] @ drop k ra)"
  using assms
proof (induction k)
  case 0
  then show ?case by simp
next
  case (Suc k)
  then have k: "k < length r" "k < length ra" by simp_all
  have a: "(map f [0..<k] @ drop k r)[k := v] = map f [0..<k] @ [v] @ drop (Suc k) r"
    for f :: "nat \<Rightarrow> npfloat" and v
    using list_update_prefix_drop [OF k(1), of "map f [0..<k]" v] by simp
  have b: "(map f [0..<k] @ drop k ra)[k := v] = map f [0..<k] @ [v] @ drop (Suc k) ra"
    for f :: "nat \<Rightarrow> npfloat" and v
    using list_update_prefix_drop [OF k(2), of "map f [0..<k]" v] by simp
  from Suc show ?case
    by (simp add: score_step_def a b)
qed

lemma uncertainty_results_eq:
  "uncertainty_results n pm pma =
     (map (\<lambda>i. uncertainty (image_slice pm i)) [0..<n],
      map (\<lambda>i. uncertainty (image_slice pma i)) [0..<n])"
  unfolding uncertainty_results_def by (subst fold_score_step) simp_all

subsection \<open>A zero score\<close>




subsection \<open>Bounds for probability vectors\<close>






subsection \<open>The closed form\<close>





subsection \<open>The sampling loop under the predictor's contract\<close>

lemma assign_pass_same_shape:
  assumes "has_shape2 N C v"
  shows "assign_pass N C v = Inr v"
proof -
  from assms have len: "length v = N" and rows: "\<And>r. r \<in> set v \<Longrightarrow> length r = C"
    by (simp_all add: has_shape2_def list_all_iff)
  have "map (\<lambda>r. if length r = C then r else replicate C (hd r)) v = v"
    by (rule map_idI) (simp add: rows)
  with len rows show ?thesis by (simp add: assign_pass_def list_all_iff)
qed

lemma model_predict_out:
  "fst (model_predict predict x w) = fst (predict (rng w) x)"
  by (simp add: model_predict_def split: prod.split)

lemma model_predict_calls:
  "predict_calls (snd (model_predict predict x w)) = Suc (predict_calls w)"
  by (simp add: model_predict_def split: prod.split)

lemma model_predict_shape:
  assumes "returns_shape C predict"
  shows "has_shape2 (length x) C (fst (model_predict predict x w))"
  using assms by (simp add: model_predict_out returns_shape_def)

lemma list_all_update:
  assumes "list_all P xs" and "P v"
  shows "list_all P (xs[i := v])"
  using assms set_update_subset_insert [of xs i v] by (auto simp add: list_all_iff)

lemma sample_loop_ok:
  assumes c: "returns_shape C predict" and x: "length x = N" and xa: "length xa = N"
    and pm: "list_all (has_shape2 N C) pm" and pma: "list_all (has_shape2 N C) pma"
  shows "\<exists>pm' pma' w'. sample_loop predict N C x xa idx (pm, pma, w) = Inr (pm', pma', w')
           \<and> predict_calls w' = predict_calls w + 2 * length idx
           \<and> length pm' = length pm \<and> length pma' = length pma
           \<and> list_all (has_shape2 N C) pm' \<and> list_all (has_shape2 N C) pma'"
  using pm pma
proof (induction idx arbitrary: pm pma w)
  case Nil
  then show ?case by simp
next
  case (Cons i idx)
  obtain p w1 where p: "model_predict predict x w = (p, w1)" by (cases "model_predict predict x w")
  obtain pa w2 where pa: "model_predict predict xa w1 = (pa, w2)" by (cases "model_predict predict xa w1")
  have sp: "has_shape2 N C p" using model_predict_shape [OF c, of x w] p x by simp
  have spa: "has_shape2 N C pa" using model_predict_shape [OF c, of xa w1] pa xa by simp
  have c1: "predict_calls w1 = Suc (predict_calls w)" using model_predict_calls [of predict x w] p by simp
  have c2: "predict_calls w2 = Suc (predict_calls w1)" using model_predict_calls [of predict xa w1] pa by simp
  have step: "sample_loop predict N C x xa (i # idx) (pm, pma, w)
      = sample_loop predict N C x xa idx (pm[i := p], pma[i := pa], w2)"
    by (simp add: p pa assign_pass_same_shape [OF sp] assign_pass_same_shape [OF spa])
  have "list_all (has_shape2 N C) (pm[i := p])" "list_all (has_shape2 N C) (pma[i := pa])"
    using Cons.prems sp spa by (simp_all add: list_all_update)
  from Cons.IH [OF this, of w2] show ?case
    unfolding step using c1 c2 by auto
qed

lemma zeros_shape: "list_all (has_shape2 N C) (replicate L (replicate N (replicate C 0)))"
  by (simp add: list_all_iff has_shape2_def)

lemma predictions_matrices_ok:
  assumes "returns_shape C predict" and "length x = N" and "length xa = N"
  shows "\<exists>pm pma w'. predictions_matrices predict L N C x xa w = Inr (pm, pma, w')
           \<and> predict_calls w' = predict_calls w + 2 * L
           \<and> has_shape3 L N C pm \<and> has_shape3 L N C pma"
  using sample_loop_ok [OF assms zeros_shape zeros_shape, of "[0..<L]" L L w]
  by (auto simp add: predictions_matrices_def has_shape3_def)

lemma uncertainty_results_length:
  "length (fst (uncertainty_results n pm pma)) = n \<and> length (snd (uncertainty_results n pm pma)) = n"
  by (simp add: uncertainty_results_eq)


lemma estimate_ok:
  assumes "returns_shape C predict" and "length x = N" and "length xa = N"
  shows "\<exists>pm pma w'. estimate predict L C x xa N w = Inr (uncertainty_results N pm pma, w')
           \<and> predict_calls w' = predict_calls w + 2 * L
           \<and> has_shape3 L N C pm \<and> has_shape3 L N C pma"
proof -
  from predictions_matrices_ok [OF assms, of L w]
  obtain pm pma w' where "predictions_matrices predict L N C x xa w = Inr (pm, pma, w')"
    and "predict_calls w' = predict_calls w + 2 * L"
    and "has_shape3 L N C pm" and "has_shape3 L N C pma"
    by blast
  then show ?thesis by (auto simp add: estimate_def)
qed

lemma flip_predict_shape: "returns_shape 2 flip_predict"
  by (auto simp add: returns_shape_def flip_predict_def has_shape2_def list_all_iff)

subsection \<open>The two batches\<close>

lemma adversarial_batches_counts:
  assumes "at_most_requested generate"
  shows "\<exists>x xa w1. adversarial_batches generate predict test_images n w = (x, xa, length xa, w1)
           \<and> xa = generate (take n test_images) (fst (model_predict predict (take n test_images) w))
           \<and> x = take (length xa) test_images
           \<and> length x = length xa"
proof -
  obtain p w1 where p: "model_predict predict (take n test_images) w = (p, w1)"
    by (cases "model_predict predict (take n test_images) w")
  define xa where "xa = generate (take n test_images) p"
  have "length (generate (take n test_images) p) \<le> length (take n test_images)"
    using assms unfolding at_most_requested_def by blast
  then have "length xa \<le> length test_images"
    by (simp add: xa_def)
  then have "length (take (length xa) test_images) = length xa" by simp
  then show ?thesis
    by (simp add: adversarial_batches_def p xa_def Let_def)
qed

lemma run_experiment_ok:
  assumes "at_most_requested generate" and "returns_shape C predict"
  shows "\<exists>x xa w1 r ra w'.
           adversarial_batches generate predict test_images n w = (x, xa, length xa, w1)
         \<and> xa = generate (take n test_images) (fst (model_predict predict (take n test_images) w))
         \<and> length x = length xa
         \<and> run_experiment generate predict test_images n L C w = Inr ((r, ra), w')
         \<and> length r = length xa \<and> length ra = length xa"
proof -
  from adversarial_batches_counts [OF assms(1), of predict test_images n w]
  obtain x xa w1 where b: "adversarial_batches generate predict test_images n w = (x, xa, length xa, w1)"
    and g: "xa = generate (take n test_images) (fst (model_predict predict (take n test_images) w))"
    and len: "length x = length xa"
    by blast
  from estimate_ok [OF assms(2) len refl, of L w1]
  obtain pm pma w' where e: "estimate predict L C x xa (length xa) w1
      = Inr (uncertainty_results (length xa) pm pma, w')"
    by blast
  obtain r ra where r: "uncertainty_results (length xa) pm pma = (r, ra)"
    by (cases "uncertainty_results (length xa) pm pma")
  with uncertainty_results_length [of "length xa" pm pma]
  have l: "length r = length xa" "length ra = length xa" by simp_all
  have "run_experiment generate predict test_images n L C w = Inr ((r, ra), w')"
    by (simp add: run_experiment_def b e r)
  with b g len l show ?thesis by blast
qed

lemma keep_even_at_most: "at_most_requested keep_even"
  by (simp add: at_most_requested_def keep_even_def)

lemma notebook_ok:
  assumes "at_most_requested generate" and "returns_shape 10 predict"
  shows "\<exists>r ra w'. notebook generate predict test_images w = Inr ((r, ra), w')
           \<and> length r = length ra"
  using run_experiment_ok [OF assms, of test_images 1000 w 100]
  by (auto simp add: notebook_def)

section \<open>The claims\<close>











text \<open>
  C6. The score depends on the magnitudes, not only on the rank order of the classes:
  the passes \<open>[0.6, 0.4], [0.4, 0.6]\<close> and \<open>[0.9, 0.1], [0.1, 0.9]\<close> rank the classes
  the same way pass by pass, and score \<open>1/50\<close> and \<open>8/25\<close>.
\<close>

theorem C6_not_scale_invariant:
  "list_all is_prob_vector [[3/5, 2/5], [2/5, 3/5]]
   \<and> list_all is_prob_vector [[9/10, 1/10], [1/10, 9/10]]
   \<and> same_rank_order [[3/5, 2/5], [2/5, 3/5]] [[9/10, 1/10], [1/10, 9/10]]
   \<and> uncertainty [[3/5, 2/5], [2/5, 3/5]] = Some (1/50)
   \<and> uncertainty [[9/10, 1/10], [1/10, 9/10]] = Some (8/25)
   \<and> uncertainty [[3/5, 2/5], [2/5, 3/5]] \<noteq> uncertainty [[9/10, 1/10], [1/10, 9/10]]"
proof -
  have a: "uncertainty [[3/5, 2/5], [2/5, 3/5]] = Some (1/50)"
    by (simp add: uncertainty_def np_sum2_def np_square2_def np_square_def np_sum_def
        np_mean_axis0_def column_def)
  have b: "uncertainty [[9/10, 1/10], [1/10, 9/10]] = Some (8/25)"
    by (simp add: uncertainty_def np_sum2_def np_square2_def np_square_def np_sum_def
        np_mean_axis0_def column_def)
  have c: "same_rank_order [[3/5, 2/5], [2/5, 3/5]] [[9/10, 1/10], [1/10, 9/10]]"
    by (simp add: same_rank_order_def same_order_def)
  have d: "list_all is_prob_vector [[3/5, 2/5], [2/5, 3/5]]"
      "list_all is_prob_vector [[9/10, 1/10], [1/10, 9/10]]"
    by (simp_all add: is_prob_vector_def)
  from a b c d show ?thesis by simp
qed

text \<open>
  C7. After the adversarial generation the notebook reads the count off the batch the
  generator returned; the clean batch it then takes has that same count, the run raises
  nothing, and both score sequences have that length. (The generator returns at most as
  many images as it was given, and the predictor honours its contract.)
\<close>

theorem C7_counts_reread:
  assumes "at_most_requested generate" and "returns_shape C predict"
  shows "\<exists>x xa w1 r ra w'.
           adversarial_batches generate predict test_images n w = (x, xa, length xa, w1)
         \<and> xa = generate (take n test_images) (fst (model_predict predict (take n test_images) w))
         \<and> length x = length xa
         \<and> run_experiment generate predict test_images n L C w = Inr ((r, ra), w')
         \<and> length r = length xa \<and> length ra = length xa"
  using assms by (rule run_experiment_ok)

theorem C7_counts_reread_witness:
  "at_most_requested keep_even \<and> returns_shape 2 flip_predict
   \<and> adversarial_batches keep_even flip_predict [0, 1, 2, 3] 3 \<lparr>rng = 0, predict_calls = 0\<rparr>
       = ([0, 1], [0, 2], 2, \<lparr>rng = 1, predict_calls = 1\<rparr>)
   \<and> (\<exists>r ra w'. run_experiment keep_even flip_predict [0, 1, 2, 3] 3 2 2 \<lparr>rng = 0, predict_calls = 0\<rparr>
          = Inr ((r, ra), w') \<and> length r = 2 \<and> length ra = 2)"
proof -
  have b: "adversarial_batches keep_even flip_predict [0, 1, 2, 3] 3 \<lparr>rng = 0, predict_calls = 0\<rparr>
       = ([0, 1], [0, 2], 2, \<lparr>rng = 1, predict_calls = 1\<rparr>)"
    by (simp add: adversarial_batches_def model_predict_def flip_predict_def keep_even_def)
  from C7_counts_reread [OF keep_even_at_most flip_predict_shape,
      of "[0, 1, 2, 3]" 3 "\<lparr>rng = 0, predict_calls = 0\<rparr>" 2]
  have "\<exists>r ra w'. run_experiment keep_even flip_predict [0, 1, 2, 3] 3 2 2 \<lparr>rng = 0, predict_calls = 0\<rparr>
          = Inr ((r, ra), w') \<and> length r = 2 \<and> length ra = 2"
    unfolding b by auto
  with keep_even_at_most flip_predict_shape b show ?thesis by simp
qed

text \<open>
  C9. With a single pass (\<open>L = 1\<close>) the score of the one vector is exactly 0, and so is
  the score the loop stores for every image of both batches.
\<close>

theorem C9_single_pass_zero:
  "uncertainty [p] = Some 0
   \<and> uncertainty_results n [m] [ma] = (replicate n (Some 0), replicate n (Some 0))"
proof
  have one: "uncertainty [q] = Some 0" for q
    using uncertainty_replicate [of 1 q] by simp
  show "uncertainty [p] = Some 0" by (rule one)
  show "uncertainty_results n [m] [ma] = (replicate n (Some 0), replicate n (Some 0))"
    by (simp add: uncertainty_results_eq image_slice_def one map_replicate_const)
qed



end
